theory Spec2Isabelle
  imports Complex_Main
begin

section \<open>Biclusters and bicluster collections (surprise/biclustering/bicluster.py)\<close>

text \<open>
  A shallow embedding of the classes \<open>Bicluster\<close> and \<open>Biclustering\<close>. Index arrays are
  lists of integers, Python sets are HOL sets, exceptions are values of the type
  \<open>error\<close>, and every method that can raise returns a sum with the error on the left.
  Floating-point results (the overlap ratio, the column frequencies, the p-value) are
  computed over the rationals: the model gives the exact value that the floating-point
  result approximates.
\<close>

subsection \<open>Exceptions and constructor arguments\<close>

datatype error = ValueError | AttributeError | IndexError | TypeError | ZeroDivisionError

datatype dtype = DBool | DInt | DOther

text \<open>
  What the constructor can be handed as \<open>rows\<close> or \<open>cols\<close>:
  \<^item> \<open>NdBool\<close>, \<open>NdInt\<close>: a one-dimensional numpy array of dtype bool, or of the
    platform integer dtype (the dtype that compares equal to \<open>np.int\<close>);
  \<^item> \<open>NdBoolN\<close>, \<open>NdIntN\<close>: a numpy array of one of these two dtypes with any number
    of dimensions, given by its shape and its entries in row-major order (the shape
    \<open>[]\<close> is a 0-d array);
  \<^item> \<open>NdIntOther\<close>: a one-dimensional numpy array of an integer dtype that does not
    compare equal to \<open>np.int\<close> (int32 or uint64 where \<open>np.int\<close> is the 64-bit integer);
  \<^item> \<open>NdOther\<close>: any other numpy array whose dtype is neither bool nor \<open>np.int\<close>;
  \<^item> \<open>DtypeObj\<close>: an object that is no numpy array but has a \<open>dtype\<close> attribute (a
    numpy scalar, an array-like of another library), given by its dtype, by what
    \<open>np.nonzero(x)[0]\<close> returns and by the elements that iterating it yields, each
    \<open>None\<close> where the call raises TypeError;
  \<^item> \<open>NotArray\<close>: an object without a \<open>dtype\<close> attribute (a list, a tuple, \<open>None\<close>).
\<close>

datatype arg =
    NdBool "bool list"
  | NdInt "int list"
  | NdBoolN "nat list" "bool list"
  | NdIntN "nat list" "int list"
  | NdIntOther "int list"
  | NdOther
  | DtypeObj dtype "int list option" "int list option"
  | NotArray



text \<open>
  The \<open>data\<close> argument: \<open>None\<close>; a two-dimensional numpy array given by its list of
  rows (the empty list stands for every two-dimensional array without rows); a numpy
  array with another number of dimensions, given by its shape; or an object that is not
  a numpy array.
\<close>

datatype data_arg = NoData | NdData "int list list" | NdDataND "nat list" | OtherData

fun isinstance_ndarray :: "arg \<Rightarrow> bool" where
  "isinstance_ndarray NotArray = False"
| "isinstance_ndarray (DtypeObj _ _ _) = False"
| "isinstance_ndarray _ = True"

text \<open>Reading \<open>x.dtype\<close>: an AttributeError on an object without that attribute.\<close>

fun dtype_of :: "arg \<Rightarrow> error + dtype" where
  "dtype_of (NdBool _) = Inr DBool"
| "dtype_of (NdInt _) = Inr DInt"
| "dtype_of (NdBoolN _ _) = Inr DBool"
| "dtype_of (NdIntN _ _) = Inr DInt"
| "dtype_of (NdIntOther _) = Inr DOther"
| "dtype_of NdOther = Inr DOther"
| "dtype_of (DtypeObj d _ _) = Inr d"
| "dtype_of NotArray = Inl AttributeError"

text \<open>\<open>np.nonzero(mask)[0]\<close>: the positions of the true entries, ascending.\<close>

definition nonzero :: "bool list \<Rightarrow> int list" where
  "nonzero bs = map int (filter (\<lambda>i. bs ! i) [0..<length bs])"

text \<open>
  \<open>np.nonzero(a)[0]\<close> for an array of any number of dimensions: the first-axis index
  of every true entry, in row-major order. A 0-d array counts as an array of one entry.
\<close>

definition nonzero_nd :: "nat list \<Rightarrow> bool list \<Rightarrow> int list" where
  "nonzero_nd sh cells =
     (case sh of
        [] \<Rightarrow> (case cells of [] \<Rightarrow> [] | b # _ \<Rightarrow> if b then [0] else [])
      | _ # rest \<Rightarrow>
          map (\<lambda>k. int (k div prod_list rest)) (filter (\<lambda>k. cells ! k) [0..<length cells]))"

fun np_nonzero :: "arg \<Rightarrow> error + int list" where
  "np_nonzero (NdBool bs) = Inr (nonzero bs)"
| "np_nonzero (NdBoolN sh cells) = Inr (nonzero_nd sh cells)"
| "np_nonzero (DtypeObj d nz it) = (case nz of None \<Rightarrow> Inl TypeError | Some r \<Rightarrow> Inr r)"
| "np_nonzero _ = Inr []"

text \<open>
  The elements that \<open>set(x)\<close> and \<open>len(x)\<close> see. Iterating a 0-d array raises
  TypeError; iterating an array of two or more dimensions yields arrays, which \<open>set\<close>
  cannot hash (TypeError), unless there is none to yield.
\<close>

fun elements_of :: "arg \<Rightarrow> error + int list" where
  "elements_of (NdInt xs) = Inr xs"
| "elements_of (NdIntN sh cells) =
     (case sh of
        [] \<Rightarrow> Inl TypeError
      | [n] \<Rightarrow> Inr cells
      | k # _ \<Rightarrow> if k = 0 then Inr [] else Inl TypeError)"
| "elements_of (DtypeObj d nz it) = (case it of None \<Rightarrow> Inl TypeError | Some xs \<Rightarrow> Inr xs)"
| "elements_of _ = Inr []"

text \<open>
  The two guards of \<open>__init__\<close>, with Python's left-to-right short-circuit evaluation of
  \<open>and\<close>: \<open>cols.dtype\<close> is only read once the conjuncts before it are true.
\<close>

definition bool_guard :: "arg \<Rightarrow> arg \<Rightarrow> error + bool" where
  "bool_guard rs cs =
     (if \<not> isinstance_ndarray rs then Inr False
      else case dtype_of rs of
             Inl e \<Rightarrow> Inl e
           | Inr d \<Rightarrow>
               if d \<noteq> DBool then Inr False
               else (case dtype_of cs of Inl e \<Rightarrow> Inl e | Inr d' \<Rightarrow> Inr (d' = DBool)))"

definition int_guard :: "arg \<Rightarrow> arg \<Rightarrow> error + bool" where
  "int_guard rs cs =
     (if \<not> isinstance_ndarray cs then Inr False
      else case dtype_of rs of
             Inl e \<Rightarrow> Inl e
           | Inr d \<Rightarrow>
               if d \<noteq> DInt then Inr False
               else (case dtype_of cs of Inl e \<Rightarrow> Inl e | Inr d' \<Rightarrow> Inr (d' = DInt)))"

text \<open>
  The branch that the guards choose: the bool branch stores \<open>np.nonzero(rows)[0]\<close> and
  \<open>np.nonzero(cols)[0]\<close>; the int branch stores \<open>rows\<close> and \<open>cols\<close> themselves and
  builds \<open>set(self.rows)\<close>, then \<open>set(self.cols)\<close>.
\<close>

definition select_indices :: "arg \<Rightarrow> arg \<Rightarrow> error + (int list \<times> int list)" where
  "select_indices rs cs =
     (case bool_guard rs cs of
        Inl e \<Rightarrow> Inl e
      | Inr True \<Rightarrow>
          (case np_nonzero rs of
             Inl e \<Rightarrow> Inl e
           | Inr r \<Rightarrow> (case np_nonzero cs of Inl e \<Rightarrow> Inl e | Inr c \<Rightarrow> Inr (r, c)))
      | Inr False \<Rightarrow>
          (case int_guard rs cs of
             Inl e \<Rightarrow> Inl e
           | Inr True \<Rightarrow>
               (case elements_of rs of
                  Inl e \<Rightarrow> Inl e
                | Inr r \<Rightarrow> (case elements_of cs of Inl e \<Rightarrow> Inl e | Inr c \<Rightarrow> Inr (r, c)))
           | Inr False \<Rightarrow> Inl ValueError))"

text \<open>\<open>data.shape\<close> of a two-dimensional array given by its rows.\<close>

definition shape :: "int list list \<Rightarrow> nat \<times> nat" where
  "shape d = (length d, case d of [] \<Rightarrow> 0 | r # _ \<Rightarrow> length r)"

text \<open>
  The test on \<open>data\<close>. An array with a number of dimensions other than two never has the
  shape \<open>(n, m)\<close>, so \<open>len(data)\<close> decides; \<open>len\<close> of a 0-d array raises TypeError.
  An accepted array without rows is stored as the empty list of rows.
\<close>

definition check_data :: "data_arg \<Rightarrow> nat \<Rightarrow> nat \<Rightarrow> error + int list list option" where
  "check_data d n m =
     (case d of
        NoData \<Rightarrow> Inr None
      | OtherData \<Rightarrow> Inl ValueError
      | NdData x \<Rightarrow>
          if shape x = (n, m) \<or> (length x = 0 \<and> n = 0) then Inr (Some x)
          else Inl ValueError
      | NdDataND sh \<Rightarrow>
          (case sh of
             [] \<Rightarrow> Inl TypeError
           | k # _ \<Rightarrow> if k = 0 \<and> n = 0 then Inr (Some []) else Inl ValueError))"

subsection \<open>The class Bicluster\<close>

text \<open>
  The attributes of an instance. \<open>data = None\<close> stands for an instance on which the
  attribute \<open>data\<close> was never set; \<open>pvalue = None\<close> is Python's \<open>None\<close>.
\<close>

record bicluster =
  rows :: "int list"
  cols :: "int list"
  rows_set :: "int set"
  cols_set :: "int set"
  data :: "int list list option"
  pvalue :: "rat option"
  area :: nat

definition Bicluster_init :: "arg \<Rightarrow> arg \<Rightarrow> data_arg \<Rightarrow> rat option \<Rightarrow> error + bicluster" where
  "Bicluster_init rs cs d pv =
     (case select_indices rs cs of
        Inl e \<Rightarrow> Inl e
      | Inr (r, c) \<Rightarrow>
          (case check_data d (length r) (length c) of
             Inl e \<Rightarrow> Inl e
           | Inr dat \<Rightarrow>
               Inr \<lparr>rows = r, cols = c, rows_set = set r, cols_set = set c,
                    data = dat, pvalue = pv, area = length r * length c\<rparr>))"

text \<open>
  \<open>np.unique\<close>, \<open>np.intersect1d\<close> and \<open>np.union1d\<close> by their documented results: the
  sorted values without repetition, of one array, common to two arrays, and of either.
\<close>

definition unique :: "int list \<Rightarrow> int list" where
  "unique xs = sort (remdups xs)"

definition intersect1d :: "int list \<Rightarrow> int list \<Rightarrow> int list" where
  "intersect1d xs ys = unique (filter (\<lambda>x. x \<in> set ys) xs)"

definition union1d :: "int list \<Rightarrow> int list \<Rightarrow> int list" where
  "union1d xs ys = unique (xs @ ys)"

definition intersection :: "bicluster \<Rightarrow> bicluster \<Rightarrow> error + bicluster" where
  "intersection self other =
     (let rows_intersec = intersect1d (rows self) (rows other);
          cols_intersec = intersect1d (cols self) (cols other)
      in Bicluster_init (NdInt rows_intersec) (NdInt cols_intersec) NoData None)"

definition union_bic :: "bicluster \<Rightarrow> bicluster \<Rightarrow> error + bicluster" where
  "union_bic self other =
     (let rows_union = union1d (rows self) (rows other);
          cols_union = union1d (cols self) (cols other)
      in Bicluster_init (NdInt rows_union) (NdInt cols_union) NoData None)"

text \<open>
  \<open>overlap\<close>: both areas are Python integers, so a zero \<open>min_area\<close> raises
  ZeroDivisionError.
\<close>

definition overlap :: "bicluster \<Rightarrow> bicluster \<Rightarrow> error + rat" where
  "overlap self other =
     (let min_area = min (area self) (area other)
      in case intersection self other of
           Inl e \<Rightarrow> Inl e
         | Inr i \<Rightarrow>
             if min_area = 0 then Inl ZeroDivisionError
             else Inr (of_nat (area i) / of_nat min_area))"

definition contained_in :: "bicluster \<Rightarrow> bicluster \<Rightarrow> int" where
  "contained_in self other =
     (let rows_intersec = rows_set self \<inter> rows_set other;
          cols_intersec = cols_set self \<inter> cols_set other;
          intersect_area = card rows_intersec * card cols_intersec
      in if area self < area other \<and> intersect_area = area self then 1 else - 1)"

definition bic_eq :: "bicluster \<Rightarrow> bicluster \<Rightarrow> bool" where
  "bic_eq self other \<longleftrightarrow>
     set (rows self) = set (rows other) \<and> set (cols self) = set (cols other)"

text \<open>
  The class invariant that \<open>__init__\<close> establishes and that no method breaks: the cached
  sets and the area agree with the index arrays.
\<close>

definition bic_inv :: "bicluster \<Rightarrow> bool" where
  "bic_inv b \<longleftrightarrow>
     rows_set b = set (rows b) \<and> cols_set b = set (cols b) \<and>
     area b = length (rows b) * length (cols b)"

subsection \<open>Hashing\<close>

text \<open>
  \<open>__hash__\<close> hashes the tuple \<open>('rows', str(self.rows), 'cols', str(self.cols))\<close>.
  \<open>str\<close> of a one-dimensional integer array prints the elements in storage order,
  right-justified to the width of the widest one and separated by single blanks, between
  square brackets (arrays short enough for numpy not to wrap the line or to elide
  elements). The hash function of tuples of strings is a parameter \<open>h\<close> of the model.
\<close>

definition digit_char :: "nat \<Rightarrow> char" where
  "digit_char d = ''0123456789'' ! d"

fun str_nat :: "nat \<Rightarrow> string" where
  "str_nat n = (if n < 10 then [digit_char n] else str_nat (n div 10) @ [digit_char (n mod 10)])"

declare str_nat.simps [simp del]

definition str_int :: "int \<Rightarrow> string" where
  "str_int i = (if i < 0 then CHR ''-'' # str_nat (nat (- i)) else str_nat (nat i))"

definition rjust :: "nat \<Rightarrow> string \<Rightarrow> string" where
  "rjust w s = replicate (w - length s) CHR '' '' @ s"

fun join_blank :: "string list \<Rightarrow> string" where
  "join_blank [] = []"
| "join_blank [s] = s"
| "join_blank (s # t # ss) = s @ CHR '' '' # join_blank (t # ss)"

definition str_nd :: "int list \<Rightarrow> string" where
  "str_nd xs =
     (let ss = map str_int xs;
          w = fold max (map length ss) 0
      in ''['' @ join_blank (map (rjust w) ss) @ '']'')"

type_synonym hash_key = "string \<times> string \<times> string \<times> string"

definition hash_key :: "bicluster \<Rightarrow> hash_key" where
  "hash_key self = (''rows'', str_nd (rows self), ''cols'', str_nd (cols self))"

definition bic_hash :: "(hash_key \<Rightarrow> 'h) \<Rightarrow> bicluster \<Rightarrow> 'h" where
  "bic_hash h self = h (hash_key self)"

subsection \<open>The class Biclustering\<close>

record biclustering =
  biclusters :: "bicluster list"

text \<open>
  \<open>set(self.biclusters)\<close>: the members are added one by one; a member is dropped when
  the set already holds one with the same hash that \<open>__eq__\<close> reports equal. The order
  in which \<open>list\<close> then enumerates the set is not fixed by Python; the model keeps the
  order of first occurrence.
\<close>

definition set_add :: "(hash_key \<Rightarrow> 'h) \<Rightarrow> bicluster list \<Rightarrow> bicluster \<Rightarrow> bicluster list" where
  "set_add h acc x =
     (if \<exists>y \<in> set acc. bic_hash h y = bic_hash h x \<and> bic_eq y x then acc else acc @ [x])"

definition py_set :: "(hash_key \<Rightarrow> 'h) \<Rightarrow> bicluster list \<Rightarrow> bicluster list" where
  "py_set h bs = foldl (set_add h) [] bs"

definition remove_duplicates :: "(hash_key \<Rightarrow> 'h) \<Rightarrow> biclustering \<Rightarrow> biclustering" where
  "remove_duplicates h self = self\<lparr>biclusters := py_set h (biclusters self)\<rparr>"

text \<open>
  \<open>remove_bypvalue\<close>: the comprehension evaluates \<open>bic.pvalue < pv\<close> member by member;
  \<open>None < pv\<close> raises TypeError, and then \<open>self.biclusters\<close> is not assigned.
\<close>

fun filter_pvalue :: "rat \<Rightarrow> bicluster list \<Rightarrow> error + bicluster list" where
  "filter_pvalue pv [] = Inr []"
| "filter_pvalue pv (bic # bs) =
     (case pvalue bic of
        None \<Rightarrow> Inl TypeError
      | Some p \<Rightarrow>
          (case filter_pvalue pv bs of
             Inl e \<Rightarrow> Inl e
           | Inr r \<Rightarrow> Inr (if p < pv then bic # r else r)))"

definition remove_bypvalue :: "biclustering \<Rightarrow> rat \<Rightarrow> error + biclustering" where
  "remove_bypvalue self pv =
     (case filter_pvalue pv (biclusters self) of
        Inl e \<Rightarrow> Inl e
      | Inr filtered_bics \<Rightarrow> Inr (self\<lparr>biclusters := filtered_bics\<rparr>))"

subsection \<open>The significance engine\<close>

text \<open>
  The data matrix is the list of its rows. \<open>np.asarray\<close> of an empty list, or of rows of
  different lengths, has no second dimension, and reading \<open>shape[1]\<close> raises IndexError.
\<close>

definition rectangular :: "int list list \<Rightarrow> bool" where
  "rectangular m \<longleftrightarrow> m \<noteq> [] \<and> (\<forall>r \<in> set m. length r = length (hd m))"

definition column :: "int list list \<Rightarrow> nat \<Rightarrow> int list" where
  "column m col_idx = map (\<lambda>r. r ! col_idx) m"

text \<open>\<open>np.unique(..., return_counts=True)\<close>: the sorted distinct values and how often each occurs.\<close>

definition unique_counts :: "int list \<Rightarrow> int list \<times> nat list" where
  "unique_counts xs = (let values = unique xs in (values, map (count_list xs) values))"

text \<open>\<open>np.where(values == v)[0][0]\<close>, read when \<open>v in values\<close>: the first position of \<open>v\<close>.\<close>

definition where_first :: "int list \<Rightarrow> int \<Rightarrow> nat" where
  "where_first values v = length (takeWhile (\<lambda>x. x \<noteq> v) values)"

text \<open>The inner loop over the labels, with its two accumulators.\<close>

fun label_loop :: "int list \<Rightarrow> nat list \<Rightarrow> int list \<Rightarrow> nat list \<Rightarrow> nat \<Rightarrow> nat list \<times> nat" where
  "label_loop values counts [] freqs_labels count = (freqs_labels, count)"
| "label_loop values counts (v # vs) freqs_labels count =
     (if v \<in> set values
      then label_loop values counts vs
             (freqs_labels @ [counts ! where_first values v])
             (count + counts ! where_first values v)
      else label_loop values counts vs (freqs_labels @ [0]) count)"

definition col_freqs :: "int list list \<Rightarrow> int list \<Rightarrow> bool \<Rightarrow> nat \<Rightarrow> rat list" where
  "col_freqs m labels missing_correction col_idx =
     (let n_rows = length m;
          (values, counts) = unique_counts (column m col_idx);
          (freqs_labels, count) = label_loop values counts labels [] 0;
          count = (if missing_correction then n_rows else count)
      in if count \<noteq> 0 then map (\<lambda>c. of_nat c / of_nat count) freqs_labels
         else map of_nat freqs_labels)"

definition freq_table :: "int list list \<Rightarrow> int list \<Rightarrow> bool \<Rightarrow> rat list list" where
  "freq_table m labels missing_correction =
     map (col_freqs m labels missing_correction) [0..<length (hd m)]"

text \<open>\<open>labels.index(x)\<close>: the first position of \<open>x\<close>, ValueError when it does not occur.\<close>

fun list_index :: "int list \<Rightarrow> int \<Rightarrow> error + nat" where
  "list_index [] x = Inl ValueError"
| "list_index (y # ys) x =
     (if y = x then Inr 0
      else case list_index ys x of Inl e \<Rightarrow> Inl e | Inr i \<Rightarrow> Inr (Suc i))"

text \<open>A numpy row index: negative indices count from the end, others out of range raise.\<close>

definition np_index :: "nat \<Rightarrow> int \<Rightarrow> error + nat" where
  "np_index n i =
     (let j = (if i < 0 then int n + i else i)
      in if 0 \<le> j \<and> j < int n then Inr (nat j) else Inl IndexError)"

text \<open>
  The loop over \<open>bic.cols\<close> that multiplies the frequencies. Each round reads
  \<open>bic.data\<close> (AttributeError when the attribute was never set), its row 0 and entry
  \<open>j\<close> of that row (IndexError), the position of that entry in \<open>labels\<close> (ValueError) and
  at last the frequency table.
\<close>

fun joint_prob :: "rat list list \<Rightarrow> int list \<Rightarrow> int list list option \<Rightarrow>
    int list \<Rightarrow> nat \<Rightarrow> rat \<Rightarrow> error + rat" where
  "joint_prob freq_cols labels dat [] j p = Inr p"
| "joint_prob freq_cols labels dat (col # cs) j p =
     (case dat of
        None \<Rightarrow> Inl AttributeError
      | Some d \<Rightarrow>
          (case d of
             [] \<Rightarrow> Inl IndexError
           | row0 # _ \<Rightarrow>
               if length row0 \<le> j then Inl IndexError
               else (case list_index labels (row0 ! j) of
                       Inl e \<Rightarrow> Inl e
                     | Inr l \<Rightarrow>
                         (case np_index (length freq_cols) col of
                            Inl e \<Rightarrow> Inl e
                          | Inr c \<Rightarrow>
                              joint_prob freq_cols labels dat cs (j + 1)
                                (p * freq_cols ! c ! l)))))"

text \<open>
  \<open>scipy.stats.binom.sf(k, n, p)\<close>, the survival function of the binomial distribution:
  the probability of strictly more than \<open>k\<close> successes in \<open>n\<close> trials.
\<close>

definition binom_pmf :: "nat \<Rightarrow> rat \<Rightarrow> nat \<Rightarrow> rat" where
  "binom_pmf n p i = of_nat (n choose i) * p ^ i * (1 - p) ^ (n - i)"

definition binom_sf :: "nat \<Rightarrow> nat \<Rightarrow> rat \<Rightarrow> rat" where
  "binom_sf k n p = sum_list (map (binom_pmf n p) [Suc k..<Suc n])"

definition score :: "rat list list \<Rightarrow> int list \<Rightarrow> nat \<Rightarrow> bicluster \<Rightarrow> error + rat" where
  "score freq_cols labels n_rows bic =
     (case joint_prob freq_cols labels (data bic) (cols bic) 0 1 of
        Inl e \<Rightarrow> Inl e
      | Inr p \<Rightarrow> Inr (binom_sf (length (rows bic)) n_rows p))"

text \<open>
  The loop over the members writes each p-value onto its member as it goes; when a member
  raises, the members before it keep their new p-value and the rest are untouched.
\<close>

fun score_all :: "rat list list \<Rightarrow> int list \<Rightarrow> nat \<Rightarrow> bicluster list \<Rightarrow>
    bicluster list \<times> error option" where
  "score_all freq_cols labels n_rows [] = ([], None)"
| "score_all freq_cols labels n_rows (bic # bs) =
     (case score freq_cols labels n_rows bic of
        Inl e \<Rightarrow> (bic # bs, Some e)
      | Inr pv \<Rightarrow>
          (let (bs', r) = score_all freq_cols labels n_rows bs
           in (bic\<lparr>pvalue := Some pv\<rparr> # bs', r)))"

definition run_constant_freq_column ::
    "biclustering \<Rightarrow> int list list \<Rightarrow> int list \<Rightarrow> bool \<Rightarrow> biclustering \<times> error option" where
  "run_constant_freq_column self data_matrix labels missing_correction =
     (if \<not> rectangular data_matrix then (self, Some IndexError)
      else
        let n_rows = length data_matrix;
            freq_cols = freq_table data_matrix labels missing_correction;
            (bs, r) = score_all freq_cols labels n_rows (biclusters self)
        in (self\<lparr>biclusters := bs\<rparr>, r))"

text \<open>
  The binomial tail in the words of the specification: the probability of at least
  \<open>k\<close> successes in \<open>n\<close> trials.
\<close>

definition spec_binom_tail_ge :: "nat \<Rightarrow> nat \<Rightarrow> rat \<Rightarrow> rat" where
  "spec_binom_tail_ge k n p = sum_list (map (binom_pmf n p) [k..<Suc n])"

section \<open>Properties\<close>

subsection \<open>Construction\<close>

lemma Bicluster_init_ints:
  "Bicluster_init (NdInt r) (NdInt c) NoData pv =
     Inr \<lparr>rows = r, cols = c, rows_set = set r, cols_set = set c,
          data = None, pvalue = pv, area = length r * length c\<rparr>"
  by (simp add: Bicluster_init_def select_indices_def bool_guard_def int_guard_def check_data_def)

lemma Bicluster_init_ints_data:
  "shape x = (length r, length c) \<Longrightarrow>
   Bicluster_init (NdInt r) (NdInt c) (NdData x) pv =
     Inr \<lparr>rows = r, cols = c, rows_set = set r, cols_set = set c,
          data = Some x, pvalue = pv, area = length r * length c\<rparr>"
  by (simp add: Bicluster_init_def select_indices_def bool_guard_def int_guard_def check_data_def)

lemma Bicluster_init_inv: "Bicluster_init rs cs d pv = Inr b \<Longrightarrow> bic_inv b"
  by (auto simp: Bicluster_init_def bic_inv_def split: sum.splits prod.splits)











subsection \<open>Containment\<close>

text \<open>
  Claim C5. \<open>contained_in\<close> returns 1 exactly when the area of \<open>self\<close> is strictly smaller
  than the area of \<open>other\<close> and the product of the sizes of the row intersection and the
  column intersection equals the area of \<open>self\<close>; in every other case it returns -1. A
  bicluster is never contained in itself.
\<close>

theorem contained_in_iff:
  "(contained_in a b = 1 \<longleftrightarrow>
      area a < area b \<and>
      card (rows_set a \<inter> rows_set b) * card (cols_set a \<inter> cols_set b) = area a) \<and>
   (contained_in a b = - 1 \<longleftrightarrow>
      \<not> (area a < area b \<and>
         card (rows_set a \<inter> rows_set b) * card (cols_set a \<inter> cols_set b) = area a)) \<and>
   contained_in a a = - 1"
  by (simp add: contained_in_def Let_def)

text \<open>Rows \<open>{0}\<close> within rows \<open>{0, 1}\<close>, on the same column: contained one way only.\<close>

theorem contained_in_iff_witness:
  "contained_in (projr (Bicluster_init (NdInt [0]) (NdInt [0]) NoData None))
     (projr (Bicluster_init (NdInt [0, 1]) (NdInt [0]) NoData None)) = 1 \<and>
   contained_in (projr (Bicluster_init (NdInt [0, 1]) (NdInt [0]) NoData None))
     (projr (Bicluster_init (NdInt [0]) (NdInt [0]) NoData None)) = - 1"
  using contained_in_iff [of "projr (Bicluster_init (NdInt [0]) (NdInt [0]) NoData None)"
      "projr (Bicluster_init (NdInt [0, 1]) (NdInt [0]) NoData None)"]
    contained_in_iff [of "projr (Bicluster_init (NdInt [0, 1]) (NdInt [0]) NoData None)"
      "projr (Bicluster_init (NdInt [0]) (NdInt [0]) NoData None)"]
  by (simp add: Bicluster_init_ints)

subsection \<open>Filtering by p-value\<close>

lemma filter_pvalue_eq:
  "filter_pvalue pv bs =
     (if \<exists>b \<in> set bs. pvalue b = None then Inl TypeError
      else Inr (filter (\<lambda>b. case pvalue b of None \<Rightarrow> False | Some p \<Rightarrow> p < pv) bs))"
  by (induction bs) (auto split: option.splits)

text \<open>
  Claim C6. \<open>remove_bypvalue\<close> raises TypeError when some member has no p-value, and
  otherwise keeps exactly the members whose p-value is strictly below the threshold, in
  their order.
\<close>

theorem remove_bypvalue_spec:
  "remove_bypvalue s pv =
     (if \<exists>b \<in> set (biclusters s). pvalue b = None then Inl TypeError
      else Inr (s\<lparr>biclusters :=
                  filter (\<lambda>b. case pvalue b of None \<Rightarrow> False | Some p \<Rightarrow> p < pv)
                    (biclusters s)\<rparr>))"
  by (simp add: remove_bypvalue_def filter_pvalue_eq)

text \<open>
  Two members with p-values 1/100 and 1/2 against the threshold 1/20: the first is kept.
  With a member that has no p-value the call raises.
\<close>

theorem remove_bypvalue_spec_witness:
  "remove_bypvalue
     \<lparr>biclusters = [projr (Bicluster_init (NdInt [0]) (NdInt [0]) NoData (Some (1 / 100))),
                    projr (Bicluster_init (NdInt [1]) (NdInt [0]) NoData (Some (1 / 2)))]\<rparr>
     (1 / 20) =
   Inr \<lparr>biclusters = [projr (Bicluster_init (NdInt [0]) (NdInt [0]) NoData (Some (1 / 100)))]\<rparr> \<and>
   remove_bypvalue
     \<lparr>biclusters = [projr (Bicluster_init (NdInt [0]) (NdInt [0]) NoData (Some (1 / 100))),
                    projr (Bicluster_init (NdInt [1]) (NdInt [0]) NoData None)]\<rparr>
     (1 / 20) = Inl TypeError"
  using remove_bypvalue_spec [of
      "\<lparr>biclusters = [projr (Bicluster_init (NdInt [0]) (NdInt [0]) NoData (Some (1 / 100))),
                    projr (Bicluster_init (NdInt [1]) (NdInt [0]) NoData (Some (1 / 2)))]\<rparr>"
      "1 / 20"]
    remove_bypvalue_spec [of
      "\<lparr>biclusters = [projr (Bicluster_init (NdInt [0]) (NdInt [0]) NoData (Some (1 / 100))),
                    projr (Bicluster_init (NdInt [1]) (NdInt [0]) NoData None)]\<rparr>"
      "1 / 20"]
  by (simp add: Bicluster_init_ints)

subsection \<open>Intersection, union and overlap\<close>

lemma length_unique: "length (unique xs) = card (set xs)"
  by (simp add: unique_def length_remdups_card_conv)

lemma unique_cong: "set xs = set ys \<Longrightarrow> unique xs = unique ys"
  unfolding unique_def
  by (rule sorted_distinct_set_unique) simp_all

lemma intersect1d_commute: "intersect1d xs ys = intersect1d ys xs"
  unfolding intersect1d_def by (rule unique_cong) auto

lemma union1d_commute: "union1d xs ys = union1d ys xs"
  unfolding union1d_def by (rule unique_cong) auto

lemma length_intersect1d: "length (intersect1d xs ys) = card (set xs \<inter> set ys)"
proof -
  have "set (filter (\<lambda>x. x \<in> set ys) xs) = set xs \<inter> set ys" by auto
  then show ?thesis by (simp add: intersect1d_def length_unique)
qed

lemma length_union1d: "length (union1d xs ys) = card (set xs \<union> set ys)"
  by (simp add: union1d_def length_unique)

lemma card_inter_le_left: "card (set xs \<inter> set ys) \<le> length xs"
  by (rule order_trans [OF card_mono card_length]) simp_all

lemma card_inter_le_right: "card (set xs \<inter> set ys) \<le> length ys"
  by (rule order_trans [OF card_mono card_length]) simp_all

lemma length_le_card_union_left: "distinct xs \<Longrightarrow> length xs \<le> card (set xs \<union> set ys)"
  by (metis List.finite_set Un_upper1 card_mono distinct_card finite_UnI)

lemma length_le_card_union_right: "distinct ys \<Longrightarrow> length ys \<le> card (set xs \<union> set ys)"
  by (metis List.finite_set Un_upper2 card_mono distinct_card finite_UnI)

lemma intersection_Inr:
  "intersection a b =
     Inr \<lparr>rows = intersect1d (rows a) (rows b), cols = intersect1d (cols a) (cols b),
          rows_set = set (intersect1d (rows a) (rows b)),
          cols_set = set (intersect1d (cols a) (cols b)),
          data = None, pvalue = None,
          area = length (intersect1d (rows a) (rows b)) * length (intersect1d (cols a) (cols b))\<rparr>"
  by (simp add: intersection_def Bicluster_init_ints Let_def)

lemma union_bic_Inr:
  "union_bic a b =
     Inr \<lparr>rows = union1d (rows a) (rows b), cols = union1d (cols a) (cols b),
          rows_set = set (union1d (rows a) (rows b)),
          cols_set = set (union1d (cols a) (cols b)),
          data = None, pvalue = None,
          area = length (union1d (rows a) (rows b)) * length (union1d (cols a) (cols b))\<rparr>"
  by (simp add: union_bic_def Bicluster_init_ints Let_def)

lemma intersection_area:
  "intersection a b = Inr i \<Longrightarrow>
     area i = card (set (rows a) \<inter> set (rows b)) * card (set (cols a) \<inter> set (cols b))"
  by (auto simp: intersection_Inr length_intersect1d)

lemma union_area:
  "union_bic a b = Inr u \<Longrightarrow>
     area u = card (set (rows a) \<union> set (rows b)) * card (set (cols a) \<union> set (cols b))"
  by (auto simp: union_bic_Inr length_union1d)

lemma intersection_area_le:
  assumes "bic_inv a" "bic_inv b" "intersection a b = Inr i"
  shows "area i \<le> area a" "area i \<le> area b"
proof -
  have ar: "area i = card (set (rows a) \<inter> set (rows b)) * card (set (cols a) \<inter> set (cols b))"
    using assms(3) by (rule intersection_area)
  show "area i \<le> area a"
    using assms(1) unfolding ar bic_inv_def
    by (simp add: mult_le_mono card_inter_le_left)
  show "area i \<le> area b"
    using assms(2) unfolding ar bic_inv_def
    by (simp add: mult_le_mono card_inter_le_right)
qed

lemma union_area_ge:
  assumes "bic_inv a" "bic_inv b" "union_bic a b = Inr u"
  shows "distinct (rows a) \<Longrightarrow> distinct (cols a) \<Longrightarrow> area a \<le> area u"
    and "distinct (rows b) \<Longrightarrow> distinct (cols b) \<Longrightarrow> area b \<le> area u"
proof -
  have ar: "area u = card (set (rows a) \<union> set (rows b)) * card (set (cols a) \<union> set (cols b))"
    using assms(3) by (rule union_area)
  show "distinct (rows a) \<Longrightarrow> distinct (cols a) \<Longrightarrow> area a \<le> area u"
    using assms(1) unfolding ar bic_inv_def
    by (simp add: mult_le_mono length_le_card_union_left)
  show "distinct (rows b) \<Longrightarrow> distinct (cols b) \<Longrightarrow> area b \<le> area u"
    using assms(2) unfolding ar bic_inv_def
    by (simp add: mult_le_mono length_le_card_union_right)
qed

lemma overlap_eq:
  "overlap a b =
     (if min (area a) (area b) = 0 then Inl ZeroDivisionError
      else Inr (of_nat (card (set (rows a) \<inter> set (rows b)) * card (set (cols a) \<inter> set (cols b)))
                / of_nat (min (area a) (area b))))"
  by (auto simp: overlap_def intersection_Inr length_intersect1d Let_def min_def)

text \<open>
  Claim C7, as the code has it. For biclusters \<open>a\<close> and \<open>b\<close> of positive area,
  \<open>overlap\<close> returns the area of their intersection divided by the smaller of their
  areas, and that ratio lies between 0 and 1. \<open>overlap a a\<close> is 1 when the row and
  column arrays of \<open>a\<close> hold no index twice.
\<close>

theorem overlap_bounds:
  assumes "bic_inv a" and "bic_inv b" and "0 < area a" and "0 < area b"
  shows "(\<exists>i. intersection a b = Inr i \<and>
              overlap a b = Inr (of_nat (area i) / of_nat (min (area a) (area b)))) \<and>
         (\<exists>q. overlap a b = Inr q \<and> 0 \<le> q \<and> q \<le> 1) \<and>
         (distinct (rows a) \<and> distinct (cols a) \<longrightarrow> overlap a a = Inr 1)"
proof (intro conjI)
  obtain i where i: "intersection a b = Inr i"
    by (simp add: intersection_Inr)
  have pos: "0 < min (area a) (area b)" using assms(3,4) by simp
  have ov: "overlap a b = Inr (of_nat (area i) / of_nat (min (area a) (area b)))"
    using i pos by (simp add: overlap_def Let_def)
  show "\<exists>i. intersection a b = Inr i \<and>
              overlap a b = Inr (of_nat (area i) / of_nat (min (area a) (area b)))"
    using i ov by blast
  have le: "area i \<le> min (area a) (area b)"
    using intersection_area_le [OF assms(1,2) i] by simp
  have "(of_nat (area i) :: rat) \<le> of_nat (min (area a) (area b))"
    using le by (simp only: of_nat_le_iff)
  then have "(of_nat (area i) :: rat) / of_nat (min (area a) (area b)) \<le> 1"
    using pos by (simp add: divide_le_eq_1)
  moreover have "(0::rat) \<le> of_nat (area i) / of_nat (min (area a) (area b))"
    by simp
  ultimately show "\<exists>q. overlap a b = Inr q \<and> 0 \<le> q \<and> q \<le> 1"
    using ov by blast
  show "distinct (rows a) \<and> distinct (cols a) \<longrightarrow> overlap a a = Inr 1"
  proof
    assume d: "distinct (rows a) \<and> distinct (cols a)"
    have "card (set (rows a)) * card (set (cols a)) = area a"
      using d assms(1) by (simp add: bic_inv_def distinct_card)
    then show "overlap a a = Inr 1"
      using assms(3) by (simp add: overlap_eq)
  qed
qed

text \<open>
  Rows \<open>[0, 1]\<close> against rows \<open>[1, 2]\<close> on column 0: one shared cell out of two.
\<close>

theorem overlap_bounds_witness:
  "bic_inv (projr (Bicluster_init (NdInt [0, 1]) (NdInt [0]) NoData None)) \<and>
   bic_inv (projr (Bicluster_init (NdInt [1, 2]) (NdInt [0]) NoData None)) \<and>
   0 < area (projr (Bicluster_init (NdInt [0, 1]) (NdInt [0]) NoData None)) \<and>
   0 < area (projr (Bicluster_init (NdInt [1, 2]) (NdInt [0]) NoData None)) \<and>
   (\<exists>q. overlap (projr (Bicluster_init (NdInt [0, 1]) (NdInt [0]) NoData None))
           (projr (Bicluster_init (NdInt [1, 2]) (NdInt [0]) NoData None)) = Inr q \<and>
         0 \<le> q \<and> q \<le> 1) \<and>
   overlap (projr (Bicluster_init (NdInt [0, 1]) (NdInt [0]) NoData None))
     (projr (Bicluster_init (NdInt [0, 1]) (NdInt [0]) NoData None)) = Inr 1"
proof -
  let ?a = "projr (Bicluster_init (NdInt [0, 1]) (NdInt [0]) NoData None)"
  let ?b = "projr (Bicluster_init (NdInt [1, 2]) (NdInt [0]) NoData None)"
  have h: "bic_inv ?a" "bic_inv ?b" "0 < area ?a" "0 < area ?b"
    by (simp_all add: Bicluster_init_ints bic_inv_def)
  have d: "distinct (rows ?a) \<and> distinct (cols ?a)"
    by (simp add: Bicluster_init_ints)
  show ?thesis
    using h d overlap_bounds [OF h] by blast
qed

text \<open>
  The claim as written fails on an index array that repeats an index: with rows
  \<open>[0, 0]\<close> and column \<open>[0]\<close> the area is 2, the intersection with itself has area 1,
  and the overlap of the bicluster with itself is 1/2.
\<close>

theorem overlap_self_counterexample:
  "Bicluster_init (NdInt [0, 0]) (NdInt [0]) NoData None =
     Inr \<lparr>rows = [0, 0], cols = [0], rows_set = {0}, cols_set = {0},
          data = None, pvalue = None, area = 2\<rparr> \<and>
   overlap \<lparr>rows = [0, 0], cols = [0], rows_set = {0}, cols_set = {0},
            data = None, pvalue = None, area = 2\<rparr>
           \<lparr>rows = [0, 0], cols = [0], rows_set = {0}, cols_set = {0},
            data = None, pvalue = None, area = 2\<rparr> = Inr (1 / 2) \<and>
   overlap \<lparr>rows = [0, 0], cols = [0], rows_set = {0}, cols_set = {0},
            data = None, pvalue = None, area = 2\<rparr>
           \<lparr>rows = [0, 0], cols = [0], rows_set = {0}, cols_set = {0},
            data = None, pvalue = None, area = 2\<rparr> \<noteq> Inr 1"
  by (simp add: Bicluster_init_ints overlap_eq)

text \<open>
  Claim C8, as the code has it. For biclusters \<open>a\<close> and \<open>b\<close>, the area of the
  intersection is at most the smaller area; the area of the union is at least the larger
  area when no index array of \<open>a\<close> or \<open>b\<close> holds an index twice; and
  \<open>intersection\<close> and \<open>union\<close> return the same bicluster whichever operand comes
  first, so the two results are equal under \<open>__eq__\<close>.
\<close>

theorem intersection_union_algebra:
  assumes "bic_inv a" and "bic_inv b"
  shows "\<exists>i u. intersection a b = Inr i \<and> union_bic a b = Inr u \<and>
           intersection b a = Inr i \<and> union_bic b a = Inr u \<and>
           bic_eq i i \<and> bic_eq u u \<and>
           area i \<le> min (area a) (area b) \<and>
           (distinct (rows a) \<and> distinct (cols a) \<and> distinct (rows b) \<and> distinct (cols b)
              \<longrightarrow> max (area a) (area b) \<le> area u)"
proof -
  obtain i where i: "intersection a b = Inr i" by (simp add: intersection_Inr)
  obtain u where u: "union_bic a b = Inr u" by (simp add: union_bic_Inr)
  have i': "intersection b a = Inr i"
    using i by (simp add: intersection_Inr intersect1d_commute [of "rows a"]
        intersect1d_commute [of "cols a"])
  have u': "union_bic b a = Inr u"
    using u by (simp add: union_bic_Inr union1d_commute [of "rows a"]
        union1d_commute [of "cols a"])
  have "area i \<le> min (area a) (area b)"
    using intersection_area_le [OF assms i] by simp
  moreover have "distinct (rows a) \<and> distinct (cols a) \<and> distinct (rows b) \<and> distinct (cols b)
              \<longrightarrow> max (area a) (area b) \<le> area u"
    using union_area_ge [OF assms u] by simp
  moreover have "bic_eq i i \<and> bic_eq u u"
    by (simp add: bic_eq_def)
  ultimately show ?thesis using i u i' u' by blast
qed

text \<open>
  Rows \<open>[0, 1]\<close> and \<open>[2, 1]\<close> on column 0: the intersection has area 1, the union
  (rows 0, 1, 2) has area 3, in either order of the operands.
\<close>

theorem intersection_union_algebra_witness:
  "bic_inv (projr (Bicluster_init (NdInt [0, 1]) (NdInt [0]) NoData None)) \<and>
   bic_inv (projr (Bicluster_init (NdInt [2, 1]) (NdInt [0]) NoData None)) \<and>
   (\<exists>i u. intersection (projr (Bicluster_init (NdInt [0, 1]) (NdInt [0]) NoData None))
             (projr (Bicluster_init (NdInt [2, 1]) (NdInt [0]) NoData None)) = Inr i \<and>
          intersection (projr (Bicluster_init (NdInt [2, 1]) (NdInt [0]) NoData None))
             (projr (Bicluster_init (NdInt [0, 1]) (NdInt [0]) NoData None)) = Inr i \<and>
          union_bic (projr (Bicluster_init (NdInt [0, 1]) (NdInt [0]) NoData None))
             (projr (Bicluster_init (NdInt [2, 1]) (NdInt [0]) NoData None)) = Inr u \<and>
          union_bic (projr (Bicluster_init (NdInt [2, 1]) (NdInt [0]) NoData None))
             (projr (Bicluster_init (NdInt [0, 1]) (NdInt [0]) NoData None)) = Inr u \<and>
          area i \<le> 2 \<and> 2 \<le> area u)"
proof -
  let ?a = "projr (Bicluster_init (NdInt [0, 1]) (NdInt [0]) NoData None)"
  let ?b = "projr (Bicluster_init (NdInt [2, 1]) (NdInt [0]) NoData None)"
  have h: "bic_inv ?a" "bic_inv ?b"
    by (simp_all add: Bicluster_init_ints bic_inv_def)
  have d: "distinct (rows ?a) \<and> distinct (cols ?a) \<and> distinct (rows ?b) \<and> distinct (cols ?b)"
    by (simp add: Bicluster_init_ints)
  have ar: "area ?a = 2" "area ?b = 2"
    by (simp_all add: Bicluster_init_ints)
  from intersection_union_algebra [OF h] obtain i u where
    "intersection ?a ?b = Inr i" "union_bic ?a ?b = Inr u"
    "intersection ?b ?a = Inr i" "union_bic ?b ?a = Inr u"
    "area i \<le> min (area ?a) (area ?b)"
    "distinct (rows ?a) \<and> distinct (cols ?a) \<and> distinct (rows ?b) \<and> distinct (cols ?b)
       \<longrightarrow> max (area ?a) (area ?b) \<le> area u"
    by blast
  then show ?thesis
    using h d ar by auto
qed

text \<open>
  The claim as written fails on an index array that repeats an index: the union of the
  bicluster with rows \<open>[0, 0]\<close> and column \<open>[0]\<close> (area 2) with itself has rows
  \<open>[0]\<close> and area 1.
\<close>

theorem union_area_counterexample:
  "Bicluster_init (NdInt [0, 0]) (NdInt [0]) NoData None =
     Inr \<lparr>rows = [0, 0], cols = [0], rows_set = {0}, cols_set = {0},
          data = None, pvalue = None, area = 2\<rparr> \<and>
   union_bic \<lparr>rows = [0, 0], cols = [0], rows_set = {0}, cols_set = {0},
              data = None, pvalue = None, area = 2\<rparr>
             \<lparr>rows = [0, 0], cols = [0], rows_set = {0}, cols_set = {0},
              data = None, pvalue = None, area = 2\<rparr> =
     Inr \<lparr>rows = [0], cols = [0], rows_set = {0}, cols_set = {0},
          data = None, pvalue = None, area = 1\<rparr> \<and>
   \<not> max (area \<lparr>rows = [0, 0], cols = [0], rows_set = {0}, cols_set = {0},
                  data = None, pvalue = None, area = 2\<rparr>)
            (area \<lparr>rows = [0, 0], cols = [0], rows_set = {0}, cols_set = {0},
                  data = None, pvalue = None, area = 2\<rparr>)
       \<le> area (projr (union_bic
                \<lparr>rows = [0, 0], cols = [0], rows_set = {0}, cols_set = {0},
                 data = None, pvalue = None, area = 2\<rparr>
                \<lparr>rows = [0, 0], cols = [0], rows_set = {0}, cols_set = {0},
                 data = None, pvalue = None, area = 2\<rparr>))"
  by (simp add: Bicluster_init_ints union_bic_Inr union1d_def unique_def)

subsection \<open>Equality, hashing and deduplication\<close>

lemma bic_eq_sets:
  "set (rows a) = set (rows b) \<Longrightarrow> set (cols a) = set (cols b) \<Longrightarrow> bic_eq a b"
  by (simp add: bic_eq_def)

lemma str_nd_01: "str_nd [0, 1] = ''[0 1]''"
  by (simp add: str_nd_def str_int_def str_nat.simps rjust_def digit_char_def)

lemma str_nd_10: "str_nd [1, 0] = ''[1 0]''"
  by (simp add: str_nd_def str_int_def str_nat.simps rjust_def digit_char_def)

lemma str_nd_0: "str_nd [0] = ''[0]''"
  by (simp add: str_nd_def str_int_def str_nat.simps rjust_def digit_char_def)

text \<open>
  Claim C1 at rows \<open>[0, 1]\<close> against rows \<open>[1, 0]\<close>, both on column \<open>[0]\<close>: the two
  biclusters are equal under \<open>__eq__\<close>, and \<open>__hash__\<close> hashes two different tuples,
  because the strings of the row arrays keep the storage order.
\<close>

theorem eq_but_hash_keys_differ:
  "bic_eq (projr (Bicluster_init (NdInt [0, 1]) (NdInt [0]) NoData None))
          (projr (Bicluster_init (NdInt [1, 0]) (NdInt [0]) NoData None)) \<and>
   hash_key (projr (Bicluster_init (NdInt [0, 1]) (NdInt [0]) NoData None)) =
     (''rows'', ''[0 1]'', ''cols'', ''[0]'') \<and>
   hash_key (projr (Bicluster_init (NdInt [1, 0]) (NdInt [0]) NoData None)) =
     (''rows'', ''[1 0]'', ''cols'', ''[0]'') \<and>
   bic_hash (\<lambda>k. k) (projr (Bicluster_init (NdInt [0, 1]) (NdInt [0]) NoData None)) \<noteq>
   bic_hash (\<lambda>k. k) (projr (Bicluster_init (NdInt [1, 0]) (NdInt [0]) NoData None))"
  by (simp add: Bicluster_init_ints bic_eq_def hash_key_def bic_hash_def
      str_nd_01 str_nd_10 str_nd_0 insert_commute)

lemma py_set_two:
  "py_set h [a, b] = (if bic_hash h a = bic_hash h b \<and> bic_eq a b then [a] else [a, b])"
  by (simp add: py_set_def set_add_def)

text \<open>
  Claim C2 on the same two biclusters, with a hash function that tells their tuples
  apart: \<open>remove_duplicates\<close> keeps both members.
\<close>

theorem remove_duplicates_keeps_reordered:
  "biclusters (remove_duplicates (\<lambda>k. k)
     \<lparr>biclusters = [projr (Bicluster_init (NdInt [0, 1]) (NdInt [0]) NoData None),
                    projr (Bicluster_init (NdInt [1, 0]) (NdInt [0]) NoData None)]\<rparr>) =
     [projr (Bicluster_init (NdInt [0, 1]) (NdInt [0]) NoData None),
      projr (Bicluster_init (NdInt [1, 0]) (NdInt [0]) NoData None)] \<and>
   bic_eq (projr (Bicluster_init (NdInt [0, 1]) (NdInt [0]) NoData None))
          (projr (Bicluster_init (NdInt [1, 0]) (NdInt [0]) NoData None))"
  by (simp add: remove_duplicates_def py_set_two Bicluster_init_ints bic_eq_def hash_key_def
      bic_hash_def str_nd_01 str_nd_10 str_nd_0 insert_commute)

lemma remove_duplicates_same_order:
  "rows a = rows b \<Longrightarrow> cols a = cols b \<Longrightarrow>
   biclusters (remove_duplicates h \<lparr>biclusters = [a, b]\<rparr>) = [a]"
  by (simp add: remove_duplicates_def py_set_two bic_hash_def hash_key_def bic_eq_def)

subsection \<open>The frequency table\<close>

lemma where_first_less: "v \<in> set values \<Longrightarrow> where_first values v < length values"
  by (induction "values") (auto simp: where_first_def)

lemma where_first_nth: "v \<in> set values \<Longrightarrow> values ! where_first values v = v"
  by (induction "values") (auto simp: where_first_def)

lemma unique_counts_lookup:
  assumes "unique_counts xs = (values, counts)" and "v \<in> set values"
  shows "counts ! where_first values v = count_list xs v"
proof -
  have c: "counts = map (count_list xs) values"
    using assms(1) by (auto simp: unique_counts_def Let_def)
  show ?thesis
    using assms(2) by (simp add: c where_first_less where_first_nth)
qed

lemma unique_counts_values: "unique_counts xs = (values, counts) \<Longrightarrow> set values = set xs"
  by (auto simp: unique_counts_def Let_def unique_def)

lemma label_loop_eq:
  "label_loop values counts vs fl c =
     (fl @ map (\<lambda>v. if v \<in> set values then counts ! where_first values v else 0) vs,
      c + sum_list (map (\<lambda>v. if v \<in> set values then counts ! where_first values v else 0) vs))"
  by (induction vs arbitrary: fl c) simp_all

lemma label_loop_counts:
  assumes "unique_counts xs = (values, counts)"
  shows "label_loop values counts labels [] 0 =
           (map (count_list xs) labels, sum_list (map (count_list xs) labels))"
proof -
  have "(if v \<in> set values then counts ! where_first values v else 0) = count_list xs v" for v
    using unique_counts_lookup [OF assms] unique_counts_values [OF assms] by auto
  then show ?thesis by (simp add: label_loop_eq)
qed

lemma col_freqs_eq:
  "col_freqs m labels mc j =
     (let cnts = map (count_list (column m j)) labels;
          count = (if mc then length m else sum_list cnts)
      in if count \<noteq> 0 then map (\<lambda>c. of_nat c / of_nat count) cnts else map of_nat cnts)"
proof -
  obtain vals cnts where u: "unique_counts (column m j) = (vals, cnts)"
    by (cases "unique_counts (column m j)")
  show ?thesis
    by (simp add: col_freqs_def u label_loop_counts [OF u] Let_def)
qed

lemma sum_count_list_distinct:
  "distinct labels \<Longrightarrow>
     sum_list (map (count_list xs) labels) = length (filter (\<lambda>x. x \<in> set labels) xs)"
proof (induction xs)
  case Nil
  then show ?case by simp
next
  case (Cons x xs)
  have one: "sum_list (map (\<lambda>v. if x = v then 1 else 0) labels) = (if x \<in> set labels then 1 else (0::nat))"
    using Cons.prems by (induction labels) auto
  have "sum_list (map (count_list (x # xs)) labels) =
          sum_list (map (\<lambda>v. (if x = v then 1 else 0) + count_list xs v) labels)"
    by (rule arg_cong [where f = sum_list]) (simp add: fun_eq_iff)
  also have "\<dots> = sum_list (map (\<lambda>v. if x = v then 1 else 0) labels) +
                    sum_list (map (count_list xs) labels)"
    by (simp add: sum_list_addf)
  also have "\<dots> = (if x \<in> set labels then 1 else 0) +
                    length (filter (\<lambda>x. x \<in> set labels) xs)"
    using Cons one by simp
  also have "\<dots> = length (filter (\<lambda>x. x \<in> set labels) (x # xs))"
    by simp
  finally show ?case .
qed

lemma freq_table_nth:
  "j < length (hd m) \<Longrightarrow> freq_table m labels mc ! j = col_freqs m labels mc j"
  by (simp add: freq_table_def)

lemma freq_entry:
  assumes "j < length (hd m)" and "i < length labels"
  shows "freq_table m labels mc ! j ! i =
           (let cnt = count_list (column m j) (labels ! i);
                count = (if mc then length m else sum_list (map (count_list (column m j)) labels))
            in if count \<noteq> 0 then of_nat cnt / of_nat count else of_nat cnt)"
  using assms by (simp add: freq_table_nth col_freqs_eq Let_def)

lemma sum_list_count_zero:
  "sum_list (map (count_list xs) labels) = 0 \<Longrightarrow> i < length labels \<Longrightarrow> count_list xs (labels ! i) = 0"
  by (induction labels arbitrary: i) (auto simp: nth_Cons split: nat.splits)

text \<open>
  Claim C4, as the code has it. For a matrix with at least one row, a column \<open>j\<close> of it
  and the label at position \<open>i\<close> of the alphabet: with \<open>missing_correction\<close> the
  frequency is the number of rows that carry the label in column \<open>j\<close> divided by the
  number of rows; without it, and for an alphabet that lists no label twice, it is that
  number divided by the number of rows whose value in column \<open>j\<close> is in the alphabet
  (0 when there is no such row). A label that does not occur in the column has
  frequency 0. On the matrix \<open>[[1,0],[1,0],[0,1],[1,1]]\<close> with alphabet \<open>[0, 1]\<close> and no
  correction, column 0 has frequency 1/4 for label 0 and 3/4 for label 1.
\<close>

theorem freq_table_entry:
  assumes "rectangular m" and "j < length (hd m)" and "i < length labels"
  shows "(mc \<longrightarrow>
            freq_table m labels mc ! j ! i =
              of_nat (count_list (column m j) (labels ! i)) / of_nat (length m)) \<and>
         (\<not> mc \<and> distinct labels \<longrightarrow>
            freq_table m labels mc ! j ! i =
              (if length (filter (\<lambda>x. x \<in> set labels) (column m j)) = 0 then 0
               else of_nat (count_list (column m j) (labels ! i)) /
                    of_nat (length (filter (\<lambda>x. x \<in> set labels) (column m j))))) \<and>
         (labels ! i \<notin> set (column m j) \<longrightarrow> freq_table m labels mc ! j ! i = 0) \<and>
         freq_table [[1, 0], [1, 0], [0, 1], [1, 1]] [0, 1] False ! 0 = [1 / 4, 3 / 4]"
proof (intro conjI impI)
  have ne: "length m \<noteq> 0" using assms(1) by (simp add: rectangular_def)
  note e = freq_entry [OF assms(2,3), of mc]
  show "freq_table m labels mc ! j ! i =
          of_nat (count_list (column m j) (labels ! i)) / of_nat (length m)" if mc
    using that ne e by (simp add: Let_def)
  show "freq_table m labels mc ! j ! i =
              (if length (filter (\<lambda>x. x \<in> set labels) (column m j)) = 0 then 0
               else of_nat (count_list (column m j) (labels ! i)) /
                    of_nat (length (filter (\<lambda>x. x \<in> set labels) (column m j))))"
    if h: "\<not> mc \<and> distinct labels"
  proof -
    have s: "sum_list (map (count_list (column m j)) labels) =
               length (filter (\<lambda>x. x \<in> set labels) (column m j))"
      using h by (simp add: sum_count_list_distinct)
    show ?thesis
    proof (cases "sum_list (map (count_list (column m j)) labels) = 0")
      case True
      then have "count_list (column m j) (labels ! i) = 0"
        using assms(3) by (rule sum_list_count_zero)
      then show ?thesis using True h s e by (simp add: Let_def)
    next
      case False
      then show ?thesis using h s e by (simp add: Let_def)
    qed
  qed
  show "freq_table m labels mc ! j ! i = 0" if "labels ! i \<notin> set (column m j)"
    using that by (simp add: e Let_def)
  show "freq_table [[1, 0], [1, 0], [0, 1], [1, 1]] [0, 1] False ! 0 = [1 / 4, 3 / 4]"
    by (simp add: freq_table_nth col_freqs_eq column_def Let_def)
qed

text \<open>
  The theorem on the matrix of the specification, column 0, label 1 (position 1 of the
  alphabet \<open>[0, 1]\<close>), with and without the correction.
\<close>

theorem freq_table_entry_witness:
  "rectangular [[1, 0], [1, 0], [0, 1], [1, 1]] \<and>
   freq_table [[1, 0], [1, 0], [0, 1], [1, 1]] [0, 1] False ! 0 ! 1 = 3 / 4 \<and>
   freq_table [[1, 0], [1, 0], [0, 1], [1, 1]] [0] True ! 0 ! 0 = 1 / 4"
proof -
  let ?m = "[[1, 0], [1, 0], [0, 1], [1, 1]] :: int list list"
  have r: "rectangular ?m" by (simp add: rectangular_def)
  have j: "0 < length (hd ?m)" by simp
  have a: "freq_table ?m [0, 1] False ! 0 ! 1 = 3 / 4"
    using freq_table_entry [OF r j, of 1 "[0, 1]" False] by (simp add: column_def)
  have b: "freq_table ?m [0] True ! 0 ! 0 = 1 / 4"
    using freq_table_entry [OF r j, of 0 "[0]" True] by (simp add: column_def)
  show ?thesis using r a b by simp
qed

text \<open>
  The claim as written fails for an alphabet that lists a label twice: in the column
  \<open>[1, 0]\<close> one row carries label 1 and one row has a value in the alphabet \<open>[1, 1]\<close>,
  so the claimed frequency is 1, and the table holds 1/2.
\<close>

theorem freq_table_repeated_label_counterexample:
  "rectangular [[1], [0]] \<and>
   freq_table [[1], [0]] [1, 1] False ! 0 ! 0 = 1 / 2 \<and>
   (of_nat (count_list (column [[1], [0]] 0) ([1, 1] ! 0)) :: rat) /
     of_nat (length (filter (\<lambda>x. x \<in> set [1, 1]) (column [[1], [0]] 0))) = 1 \<and>
   freq_table [[1], [0]] [1, 1] False ! 0 ! 0 \<noteq>
     of_nat (count_list (column [[1], [0]] 0) ([1, 1] ! 0)) /
     of_nat (length (filter (\<lambda>x. x \<in> set [1, 1]) (column [[1], [0]] 0)))"
  by (simp add: rectangular_def freq_table_nth col_freqs_eq column_def Let_def)

subsection \<open>Scoring\<close>

lemma binom_tail_split:
  "k \<le> n \<Longrightarrow> spec_binom_tail_ge k n p = binom_pmf n p k + binom_sf k n p"
proof -
  assume "k \<le> n"
  then have "[k..<Suc n] = k # [Suc k..<Suc n]"
    by (intro upt_conv_Cons) simp
  then show ?thesis
    by (simp only: spec_binom_tail_ge_def binom_sf_def list.map sum_list.Cons)
qed

lemma binom_sf_2_4: "binom_sf 2 4 (3 / 4) = 189 / 256"
  by code_simp

lemma binom_sf_2_4_Suc:
  "binom_sf (Suc (Suc 0)) (Suc (Suc (Suc (Suc 0)))) (3 / 4) = 189 / 256"
  using binom_sf_2_4 by (simp add: eval_nat_numeral)

lemma spec_binom_tail_ge_2_4: "spec_binom_tail_ge 2 4 (3 / 4) = 243 / 256"
  by code_simp

lemma score_all_error:
  "b \<in> set bs \<Longrightarrow> score fc labels n b = Inl e \<Longrightarrow>
     \<exists>e'. snd (score_all fc labels n bs) = Some e'"
  by (induction bs) (auto split: sum.splits prod.splits)

lemma score_all_first_error:
  "\<forall>x \<in> set pre. \<exists>p. score fc labels n x = Inr p \<Longrightarrow> score fc labels n b = Inl e \<Longrightarrow>
     snd (score_all fc labels n (pre @ b # post)) = Some e"
  by (induction pre) (auto split: sum.splits prod.splits)

lemma score_no_data:
  "cols b \<noteq> [] \<Longrightarrow> data b = None \<Longrightarrow> score fc labels n b = Inl AttributeError"
  by (cases "cols b") (simp_all add: score_def)

lemma score_empty_data:
  "cols b \<noteq> [] \<Longrightarrow> data b = Some [] \<Longrightarrow> score fc labels n b = Inl IndexError"
  by (cases "cols b") (simp_all add: score_def)

lemma run_snd:
  "snd (run_constant_freq_column s m labels mc) =
     (if \<not> rectangular m then Some IndexError
      else snd (score_all (freq_table m labels mc) labels (length m) (biclusters s)))"
  by (simp add: run_constant_freq_column_def Let_def split: prod.splits)

text \<open>
  Claim C3 on the scenario of the specification: rows \<open>{0, 1}\<close> and column \<open>{0}\<close> of the
  matrix \<open>[[1,0],[1,0],[0,1],[1,1]]\<close>, representative label 1, so \<open>p = 3/4\<close>. The engine
  stores \<open>189/256\<close>, the probability of more than 2 successes in 4 trials; the
  probability of at least 2 successes is \<open>243/256\<close>.
\<close>

theorem pvalue_is_strict_tail:
  "run_constant_freq_column
     \<lparr>biclusters = [projr (Bicluster_init (NdInt [0, 1]) (NdInt [0]) (NdData [[1], [1]]) None)]\<rparr>
     [[1, 0], [1, 0], [0, 1], [1, 1]] [0, 1] False =
   (\<lparr>biclusters = [(projr (Bicluster_init (NdInt [0, 1]) (NdInt [0]) (NdData [[1], [1]]) None))
                      \<lparr>pvalue := Some (189 / 256)\<rparr>]\<rparr>, None) \<and>
   joint_prob (freq_table [[1, 0], [1, 0], [0, 1], [1, 1]] [0, 1] False) [0, 1]
     (Some [[1], [1]]) [0] 0 1 = Inr (3 / 4) \<and>
   spec_binom_tail_ge 2 4 (3 / 4) = 243 / 256"
proof -
  let ?m = "[[1, 0], [1, 0], [0, 1], [1, 1]] :: int list list"
  have ft: "freq_table ?m [0, 1] False = [[1 / 4, 3 / 4], [1 / 2, 1 / 2]]"
    by (simp add: freq_table_def col_freqs_eq column_def Let_def upt_rec)
  have r: "rectangular ?m" by (simp add: rectangular_def)
  show ?thesis
    by (simp add: run_constant_freq_column_def r ft score_def np_index_def binom_sf_2_4_Suc
        spec_binom_tail_ge_2_4 Bicluster_init_ints_data shape_def)
qed

text \<open>
  Claim C10. An instance built without \<open>data\<close> has no \<open>data\<close> attribute. Scoring a
  member that has at least one column raises AttributeError when the member has no
  \<open>data\<close> attribute and IndexError when its \<open>data\<close> has no row. A run over a collection
  that holds such a member raises; when every member before it can be scored, the run
  raises that member's error.
\<close>

theorem run_requires_data:
  "(Bicluster_init rs cs NoData pv = Inr b \<longrightarrow> data b = None) \<and>
   (cols b \<noteq> [] \<and> data b = None \<longrightarrow> score fc labels n b = Inl AttributeError) \<and>
   (cols b \<noteq> [] \<and> data b = Some [] \<longrightarrow> score fc labels n b = Inl IndexError) \<and>
   (b \<in> set (biclusters s) \<and> cols b \<noteq> [] \<and> (data b = None \<or> data b = Some []) \<longrightarrow>
      (\<exists>e. snd (run_constant_freq_column s m labels mc) = Some e)) \<and>
   (rectangular m \<and> biclusters s = pre @ b # post \<and>
    (\<forall>x \<in> set pre. \<exists>p. score (freq_table m labels mc) labels (length m) x = Inr p) \<and>
    cols b \<noteq> [] \<and> (data b = None \<or> data b = Some []) \<longrightarrow>
      snd (run_constant_freq_column s m labels mc) =
        Some (if data b = None then AttributeError else IndexError))"
proof (intro conjI impI)
  show "data b = None" if "Bicluster_init rs cs NoData pv = Inr b"
    using that
    by (auto simp: Bicluster_init_def check_data_def split: sum.splits prod.splits)
  show "score fc labels n b = Inl AttributeError" if "cols b \<noteq> [] \<and> data b = None"
    using that by (simp add: score_no_data)
  show "score fc labels n b = Inl IndexError" if "cols b \<noteq> [] \<and> data b = Some []"
    using that by (simp add: score_empty_data)
  show "\<exists>e. snd (run_constant_freq_column s m labels mc) = Some e"
    if h: "b \<in> set (biclusters s) \<and> cols b \<noteq> [] \<and> (data b = None \<or> data b = Some [])"
  proof (cases "rectangular m")
    case False
    then show ?thesis by (simp add: run_snd)
  next
    case True
    from h obtain e where "score (freq_table m labels mc) labels (length m) b = Inl e"
      using score_no_data score_empty_data by blast
    with h have "\<exists>e'. snd (score_all (freq_table m labels mc) labels (length m) (biclusters s)) = Some e'"
      using score_all_error by blast
    with True show ?thesis by (simp add: run_snd)
  qed
  show "snd (run_constant_freq_column s m labels mc) =
          Some (if data b = None then AttributeError else IndexError)"
    if h: "rectangular m \<and> biclusters s = pre @ b # post \<and>
      (\<forall>x \<in> set pre. \<exists>p. score (freq_table m labels mc) labels (length m) x = Inr p) \<and>
      cols b \<noteq> [] \<and> (data b = None \<or> data b = Some [])"
  proof -
    have e: "score (freq_table m labels mc) labels (length m) b =
               Inl (if data b = None then AttributeError else IndexError)"
      using h score_no_data score_empty_data by auto
    show ?thesis
      using h score_all_first_error [OF _ e, of pre post] by (simp add: run_snd)
  qed
qed

text \<open>
  A collection whose first member has its submatrix and whose second member was built
  without one, both on column 0 of the matrix of the specification: the first member is
  scored, the run then raises AttributeError.
\<close>

theorem run_requires_data_witness:
  "data (projr (Bicluster_init (NdInt [2]) (NdInt [0]) NoData None)) = None \<and>
   snd (run_constant_freq_column
     \<lparr>biclusters = [projr (Bicluster_init (NdInt [0, 1]) (NdInt [0]) (NdData [[1], [1]]) None),
                    projr (Bicluster_init (NdInt [2]) (NdInt [0]) NoData None)]\<rparr>
     [[1, 0], [1, 0], [0, 1], [1, 1]] [0, 1] False) = Some AttributeError"
proof -
  let ?m = "[[1, 0], [1, 0], [0, 1], [1, 1]] :: int list list"
  let ?a = "projr (Bicluster_init (NdInt [0, 1]) (NdInt [0]) (NdData [[1], [1]]) None)"
  let ?b = "projr (Bicluster_init (NdInt [2]) (NdInt [0]) NoData None)"
  have ft: "freq_table ?m [0, 1] False = [[1 / 4, 3 / 4], [1 / 2, 1 / 2]]"
    by (simp add: freq_table_def col_freqs_eq column_def Let_def upt_rec)
  have r: "rectangular ?m" by (simp add: rectangular_def)
  have pre: "\<forall>x \<in> set [?a]. \<exists>p. score (freq_table ?m [0, 1] False) [0, 1] (length ?m) x = Inr p"
    by (simp add: ft score_def np_index_def Bicluster_init_ints_data shape_def)
  have b: "Bicluster_init (NdInt [2]) (NdInt [0]) NoData None = Inr ?b"
    by (simp add: Bicluster_init_ints)
  have bd: "cols ?b \<noteq> []" by (simp add: Bicluster_init_ints)
  have d: "data ?b = None"
    using run_requires_data [where rs = "NdInt [2]" and cs = "NdInt [0]" and pv = None and b = ?b] b
    by blast
  have "snd (run_constant_freq_column \<lparr>biclusters = [?a] @ ?b # []\<rparr> ?m [0, 1] False) =
          Some (if data ?b = None then AttributeError else IndexError)"
    using run_requires_data [where b = ?b and s = "\<lparr>biclusters = [?a] @ ?b # []\<rparr>"
        and m = ?m and labels = "[0, 1]" and mc = False and pre = "[?a]" and post = "[]"]
      r pre bd d
    by simp
  then show ?thesis using d by simp
qed

end
